theory Spec2Isabelle
  imports Main "HOL-Library.AList"
begin

section \<open>The MCP Chrome proxy (src/server.ts) as a state machine\<close>

text \<open>
  The bridge is the class \<open>ChromeProxyServer\<close>. Its two fields, \<open>chromeClient\<close> and
  \<open>activeSessions\<close>, are modelled as they are declared. Everything the class does to the
  outside world (spawning the child, closing SDK objects, arming timers, exiting) is kept in
  bookkeeping fields beside them, so that claims about those effects can be stated.
  An \<open>await\<close> of an SDK promise is a point where the environment decides the outcome:
  the outcome is a parameter of the function that awaits.
\<close>

subsection \<open>Values of the runtime and of the SDK\<close>

datatype error = Error (message: string)

text \<open>How an awaited SDK promise settles: \<open>None\<close> resolved, \<open>Some e\<close> rejected with \<open>e\<close>.\<close>
type_synonym outcome = "error option"

datatype json = JString string | JBool bool | JObject "(string \<times> json) list"

text \<open>The SDK \<open>Client\<close> object: an identity and how far its \<open>connect\<close> has come.\<close>
datatype conn_state = Connecting | Ready | Failed

datatype Client = Client (client_id: nat) (conn: conn_state)

datatype schema = ListToolsRequestSchema | CallToolRequestSchema

datatype Server = Server (server_id: nat) (requestHandlers: "schema list")

datatype Transport = Transport (transport_id: nat)

record session =
  server :: Server
  transport :: Transport

datatype effect =
    TransportClose nat
  | ServerClose nat
  | ClientClose nat
  | HandleRequest nat
  | ConsoleError string

record bridge =
  chromeClient :: "Client option"
  activeSessions :: "(string \<times> session) list"
  spawned :: nat
  servers_made :: nat
  transports_made :: nat
  timers :: "nat list"
  effects :: "effect list"
  exit_code :: "nat option"

text \<open>
  \<open>activeSessions\<close> is a JavaScript \<open>Map\<close>: an association list in insertion order,
  read with \<open>map_of\<close>, written with \<open>AList.update\<close>, deleted with \<open>AList.delete\<close>.
  \<open>spawned\<close> counts the \<open>Client\<close>/\<open>StdioClientTransport\<close> pairs constructed so far,
  \<open>servers_made\<close> and \<open>transports_made\<close> the session-side objects; they also name the
  objects. \<open>timers\<close> holds the delay of every pending \<open>setTimeout\<close>; the only callback the
  class ever arms is the session cleanup. \<open>effects\<close> is the ordered log of calls into the SDK
  and of \<open>console.error\<close>. \<open>exit_code\<close> is set by \<open>process.exit\<close>.
\<close>

definition new_ChromeProxyServer :: bridge where
  "new_ChromeProxyServer =
     \<lparr>chromeClient = None, activeSessions = [], spawned = 0, servers_made = 0,
      transports_made = 0, timers = [], effects = [], exit_code = None\<rparr>"

definition console_error :: "string \<Rightarrow> bridge \<Rightarrow> bridge" where
  "console_error tag s = s\<lparr>effects := effects s @ [ConsoleError tag]\<rparr>"

definition sdk_call :: "effect \<Rightarrow> bridge \<Rightarrow> bridge" where
  "sdk_call ev s = s\<lparr>effects := effects s @ [ev]\<rparr>"

definition CHROME_URL :: "string option \<Rightarrow> string" where
  "CHROME_URL env_var =
     (case env_var of
        None \<Rightarrow> ''http://localhost:9222''
      | Some v \<Rightarrow> if v = [] then ''http://localhost:9222'' else v)"

subsection \<open>initChromeConnection\<close>

text \<open>
  The function runs without interruption up to \<open>await this.chromeClient.connect(transport)\<close>:
  the test of the field, the assignment of the new \<open>Client\<close> and the call that spawns the
  child are one step (\<open>initChromeConnection_begin\<close>). It returns the client whose
  handshake is awaited, or \<open>None\<close> when it returned early.
\<close>

definition initChromeConnection_begin :: "bridge \<Rightarrow> Client option \<times> bridge" where
  "initChromeConnection_begin s =
     (case chromeClient s of
        Some c \<Rightarrow> (None, s)
      | None \<Rightarrow>
          (let c = Client (spawned s) Connecting
           in (Some c, s\<lparr>chromeClient := Some c, spawned := Suc (spawned s)\<rparr>)))"

text \<open>The handshake of client \<open>c\<close> settles; the object changes where the field still holds it.\<close>

definition settle :: "Client \<Rightarrow> conn_state \<Rightarrow> bridge \<Rightarrow> bridge" where
  "settle c st s =
     (case chromeClient s of
        None \<Rightarrow> s
      | Some c' \<Rightarrow>
          if client_id c' = client_id c
          then s\<lparr>chromeClient := Some (Client (client_id c) st)\<rparr> else s)"

definition initChromeConnection_end :: "outcome \<Rightarrow> Client \<Rightarrow> bridge \<Rightarrow> (error + unit) \<times> bridge" where
  "initChromeConnection_end out c s =
     (case out of
        None \<Rightarrow> (Inr (), settle c Ready s)
      | Some e \<Rightarrow> (Inl e, console_error ''[Chrome] Failed to connect:'' (settle c Failed s)))"

definition initChromeConnection :: "outcome \<Rightarrow> bridge \<Rightarrow> (error + unit) \<times> bridge" where
  "initChromeConnection out s =
     (case initChromeConnection_begin s of
        (None, s') \<Rightarrow> (Inr (), s')
      | (Some c, s') \<Rightarrow> initChromeConnection_end out c s')"

subsection \<open>setupHandlers\<close>

text \<open>
  What the child answers is the environment's: \<open>listTools\<close> and \<open>callTool\<close> are functions
  of the \<open>Client\<close> object the call is made on.
\<close>

record rpc_env =
  connect_result :: outcome
  listTools :: "Client \<Rightarrow> error + json"
  callTool :: "Client \<Rightarrow> string \<Rightarrow> json \<Rightarrow> error + json"

definition listToolsHandler :: "rpc_env \<Rightarrow> bridge \<Rightarrow> (error + json) \<times> bridge" where
  "listToolsHandler env s =
     (case initChromeConnection (connect_result env) s of
        (Inl e, s') \<Rightarrow> (Inl e, console_error ''[Error] ListTools failed:'' s')
      | (Inr u, s') \<Rightarrow>
          (case chromeClient s' of
             None \<Rightarrow>
               (Inl (Error ''Chrome client not initialized''),
                console_error ''[Error] ListTools failed:'' s')
           | Some c \<Rightarrow>
               (case listTools env c of
                  Inl e \<Rightarrow> (Inl e, console_error ''[Error] ListTools failed:'' s')
                | Inr r \<Rightarrow> (Inr r, s'))))"

definition callToolHandler :: "rpc_env \<Rightarrow> string \<Rightarrow> json \<Rightarrow> bridge \<Rightarrow> (error + json) \<times> bridge" where
  "callToolHandler env name arguments s =
     (case initChromeConnection (connect_result env) s of
        (Inl e, s') \<Rightarrow> (Inl e, console_error (''[Error] CallTool '' @ name @ '' failed:'') s')
      | (Inr u, s') \<Rightarrow>
          (case chromeClient s' of
             None \<Rightarrow>
               (Inl (Error ''Chrome client not initialized''),
                console_error (''[Error] CallTool '' @ name @ '' failed:'') s')
           | Some c \<Rightarrow>
               (case callTool env c name arguments of
                  Inl e \<Rightarrow> (Inl e, console_error (''[Error] CallTool '' @ name @ '' failed:'') s')
                | Inr r \<Rightarrow> (Inr r, s'))))"

text \<open>\<open>setupHandlers\<close> registers the two handlers above on the server it is given.\<close>

definition setupHandlers :: "Server \<Rightarrow> Server" where
  "setupHandlers srv =
     Server (server_id srv)
       (requestHandlers srv @ [ListToolsRequestSchema, CallToolRequestSchema])"

datatype rpc_request = ListToolsRequest | CallToolRequest string json

text \<open>
  A request that reaches a \<open>Server\<close> runs the handler registered for its schema; both
  handlers are closures over the one bridge object, whatever server they are registered on.
\<close>

definition dispatch :: "Server \<Rightarrow> rpc_request \<Rightarrow> rpc_env \<Rightarrow> bridge \<Rightarrow> (error + json) \<times> bridge" where
  "dispatch srv rq env s =
     (case rq of
        ListToolsRequest \<Rightarrow>
          if ListToolsRequestSchema \<in> set (requestHandlers srv)
          then listToolsHandler env s else (Inl (Error ''Method not found''), s)
      | CallToolRequest name arguments \<Rightarrow>
          if CallToolRequestSchema \<in> set (requestHandlers srv)
          then callToolHandler env name arguments s else (Inl (Error ''Method not found''), s))"

definition createServerForSession :: "string \<Rightarrow> bridge \<Rightarrow> Server \<times> bridge" where
  "createServerForSession sessionId s =
     (setupHandlers (Server (servers_made s) []), s\<lparr>servers_made := Suc (servers_made s)\<rparr>)"

subsection \<open>HTTP requests and responses\<close>

record request =
  http_method :: string
  url :: string

datatype listener = LogListener | CleanupSession

datatype body = JsonBody json | TextBody string

record response =
  headersSent :: bool
  statusCode :: nat
  headers :: "(string \<times> string) list"
  payload :: "body option"
  writableEnded :: bool
  listeners :: "(string \<times> listener) list"

text \<open>The response object Node hands to the request listener.\<close>

definition ServerResponse :: response where
  "ServerResponse =
     \<lparr>headersSent = False, statusCode = 200, headers = [], payload = None,
      writableEnded = False, listeners = []\<rparr>"

definition res_on :: "string \<Rightarrow> listener \<Rightarrow> response \<Rightarrow> response" where
  "res_on ev l res = res\<lparr>listeners := listeners res @ [(ev, l)]\<rparr>"

definition res_setHeader :: "string \<Rightarrow> string \<Rightarrow> response \<Rightarrow> response" where
  "res_setHeader name v res = res\<lparr>headers := AList.update name v (headers res)\<rparr>"

definition res_writeHead :: "nat \<Rightarrow> (string \<times> string) list \<Rightarrow> response \<Rightarrow> response" where
  "res_writeHead code hs res =
     res\<lparr>statusCode := code,
         headers := fold (\<lambda>(k, v). AList.update k v) hs (headers res),
         headersSent := True\<rparr>"

definition res_end :: "body option \<Rightarrow> response \<Rightarrow> response" where
  "res_end data res = res\<lparr>payload := data, headersSent := True, writableEnded := True\<rparr>"

text \<open>
  What \<open>transport.handleRequest(req, res)\<close> of the SDK did to the response before it
  returned or threw: nothing, or a status line and headers, possibly a body, possibly the end.
\<close>

datatype sdk_write = Untouched | Written nat "(string \<times> string) list" "body option" bool

definition apply_write :: "sdk_write \<Rightarrow> response \<Rightarrow> response" where
  "apply_write w res =
     (case w of
        Untouched \<Rightarrow> res
      | Written code hs data ended \<Rightarrow>
          (res_writeHead code hs res)\<lparr>payload := data, writableEnded := ended\<rparr>)"

record http_env =
  requestId :: string
  CHROME_URL_var :: "string option"
  server_connect :: outcome
  handleRequest :: "Transport \<Rightarrow> request \<Rightarrow> outcome \<times> sdk_write"

definition sharedSessionId :: string where
  "sharedSessionId = ''http-shared''"

text \<open>Lines 251-267: look the shared session up, or build, connect and store a new pair.\<close>

definition getOrCreateSession :: "outcome \<Rightarrow> bridge \<Rightarrow> (error + session) \<times> bridge" where
  "getOrCreateSession connect_out s =
     (case map_of (activeSessions s) sharedSessionId of
        Some sess \<Rightarrow> (Inr sess, s)
      | None \<Rightarrow>
          (let t = Transport (transports_made s);
               s1 = s\<lparr>transports_made := Suc (transports_made s)\<rparr>;
               (srv, s2) = createServerForSession sharedSessionId s1
           in case connect_out of
                Some e \<Rightarrow> (Inl e, s2)
              | None \<Rightarrow>
                  (let sess = \<lparr>server = srv, transport = t\<rparr>
                   in (Inr sess,
                       s2\<lparr>activeSessions :=
                            AList.update sharedSessionId sess (activeSessions s2)\<rparr>))))"

text \<open>The body of the \<open>try\<close> block of the \<open>/mcp\<close> branch; \<open>Some e\<close> is what it throws.\<close>

definition mcp_try :: "http_env \<Rightarrow> request \<Rightarrow> response \<Rightarrow> bridge \<Rightarrow> outcome \<times> response \<times> bridge" where
  "mcp_try env req res s =
     (let res1 = res_setHeader ''Access-Control-Allow-Headers'' ''Content-Type''
                   (res_setHeader ''Access-Control-Allow-Methods'' ''GET, POST, OPTIONS''
                     (res_setHeader ''Access-Control-Allow-Origin'' ''*'' res))
      in if http_method req = ''OPTIONS''
         then (None, res_end None (res_writeHead 200 [] res1), s)
         else
           (case getOrCreateSession (server_connect env) s of
              (Inl e, s1) \<Rightarrow> (Some e, res1, s1)
            | (Inr sess, s1) \<Rightarrow>
                (let res2 = (if http_method req = ''GET''
                             then res_on ''finish'' CleanupSession
                                    (res_on ''close'' CleanupSession res1)
                             else res1);
                     s2 = sdk_call (HandleRequest (transport_id (transport sess))) s1
                 in case handleRequest env (transport sess) req of
                      (out, w) \<Rightarrow> (out, apply_write w res2, s2))))"

definition handle_mcp :: "http_env \<Rightarrow> request \<Rightarrow> response \<Rightarrow> bridge \<Rightarrow> response \<times> bridge" where
  "handle_mcp env req res s =
     (case mcp_try env req res s of
        (None, res', s') \<Rightarrow> (res', s')
      | (Some e, res', s') \<Rightarrow>
          (if \<not> headersSent res'
           then res_end
                  (Some (JsonBody (JObject
                     [(''error'', JString ''Internal server error''),
                      (''message'', JString (message e)),
                      (''requestId'', JString (requestId env))])))
                  (res_writeHead 500
                     [(''Content-Type'', ''application/json''),
                      (''Access-Control-Allow-Origin'', ''*'')] res')
           else res',
           console_error ''ERROR:'' s'))"

definition health_body :: "string option \<Rightarrow> bridge \<Rightarrow> json" where
  "health_body url_var s =
     JObject
       [(''status'', JString ''ok''),
        (''chrome_url'', JString (CHROME_URL url_var)),
        (''chrome_connected'', JBool (chromeClient s \<noteq> None)),
        (''tools_available'', JBool (case chromeClient s of Some c \<Rightarrow> True | None \<Rightarrow> False))]"

text \<open>
  The listener given to \<open>http.createServer\<close>: the response it leaves and the new state.
  The listeners it puts on the request and the keep-alive it sets on the socket only log
  and are left out, as is every \<open>console.log\<close>.
\<close>

definition requestListener :: "http_env \<Rightarrow> request \<Rightarrow> bridge \<Rightarrow> response \<times> bridge" where
  "requestListener env req s =
     (let res = res_on ''error'' LogListener (res_on ''close'' LogListener ServerResponse)
      in if url req = ''/health''
         then (res_end (Some (JsonBody (health_body (CHROME_URL_var env) s)))
                 (res_writeHead 200
                    [(''Content-Type'', ''application/json''),
                     (''Access-Control-Allow-Origin'', ''*'')] res),
               s)
         else if url req = ''/mcp'' \<or> take 4 (url req) = ''/mcp''
         then handle_mcp env req res s
         else (res_end
                 (Some (TextBody ''Not Found. Use /mcp for MCP endpoint or /health for status''))
                 (res_writeHead 404 [(''Content-Type'', ''text/plain'')] res),
               s))"

subsection \<open>Session cleanup after a stream ends\<close>

text \<open>\<open>cleanupSession\<close> only arms a timer of 100 ms; the removal is the timer's callback.\<close>

definition cleanupSession :: "bridge \<Rightarrow> bridge" where
  "cleanupSession s = s\<lparr>timers := timers s @ [100]\<rparr>"

fun run_listener :: "listener \<Rightarrow> bridge \<Rightarrow> bridge" where
  "run_listener LogListener s = s"
| "run_listener CleanupSession s = cleanupSession s"

text \<open>The response emits an event: its listeners for that event run in registration order.\<close>

definition emit :: "string \<Rightarrow> response \<Rightarrow> bridge \<Rightarrow> bridge" where
  "emit ev res s = fold run_listener (map snd (filter (\<lambda>p. fst p = ev) (listeners res))) s"

record close_env =
  transport_close :: "Transport \<Rightarrow> outcome"
  server_close :: "Server \<Rightarrow> outcome"
  client_close :: "Client \<Rightarrow> outcome"

text \<open>
  \<open>try { await transport.close(); await server.close() } catch (err) { console.error(..) }\<close>,
  as both the timer callback and the shutdown loop have it.
\<close>

definition close_pair :: "close_env \<Rightarrow> string \<Rightarrow> session \<Rightarrow> bridge \<Rightarrow> bridge" where
  "close_pair env tag sess s =
     (let s1 = sdk_call (TransportClose (transport_id (transport sess))) s
      in case transport_close env (transport sess) of
           Some e \<Rightarrow> console_error tag s1
         | None \<Rightarrow>
             (let s2 = sdk_call (ServerClose (server_id (server sess))) s1
              in case server_close env (server sess) of
                   Some e \<Rightarrow> console_error tag s2
                 | None \<Rightarrow> s2))"

text \<open>The callback of the timer (lines 274-286), for the identifier its closure holds.\<close>

definition removeSession :: "close_env \<Rightarrow> string \<Rightarrow> bridge \<Rightarrow> bridge" where
  "removeSession env sid s =
     (case map_of (activeSessions s) sid of
        None \<Rightarrow> s
      | Some sess \<Rightarrow>
          close_pair env ''Error cleaning up session:'' sess
            (s\<lparr>activeSessions := AList.delete sid (activeSessions s)\<rparr>))"

definition timer_fires :: "close_env \<Rightarrow> bridge \<Rightarrow> bridge" where
  "timer_fires env s =
     (case timers s of
        [] \<Rightarrow> s
      | d # ds \<Rightarrow> removeSession env sharedSessionId (s\<lparr>timers := ds\<rparr>))"

subsection \<open>Shutdown\<close>

fun close_sessions :: "close_env \<Rightarrow> (string \<times> session) list \<Rightarrow> bridge \<Rightarrow> bridge" where
  "close_sessions env [] s = s"
| "close_sessions env (p # ps) s =
     close_sessions env ps (close_pair env ''[Shutdown] Error closing session'' (snd p) s)"

definition cleanup_sessions :: "close_env \<Rightarrow> bridge \<Rightarrow> bridge" where
  "cleanup_sessions env s = (close_sessions env (activeSessions s) s)\<lparr>activeSessions := []\<rparr>"

text \<open>
  \<open>if (this.chromeClient) { await this.chromeClient.close(); this.chromeClient = null }\<close>
  in two steps, the call and what follows the \<open>await\<close>; a rejection goes to the outer
  \<open>catch\<close>, which logs it.
\<close>

definition cleanup_client_call :: "bridge \<Rightarrow> Client option \<times> bridge" where
  "cleanup_client_call s =
     (case chromeClient s of
        None \<Rightarrow> (None, s)
      | Some c \<Rightarrow> (Some c, sdk_call (ClientClose (client_id c)) s))"

definition cleanup_client_resume :: "outcome \<Rightarrow> bridge \<Rightarrow> bridge" where
  "cleanup_client_resume out s =
     (case out of
        None \<Rightarrow> s\<lparr>chromeClient := None\<rparr>
      | Some e \<Rightarrow> console_error ''[Shutdown] Error during cleanup:'' s)"

definition cleanup :: "close_env \<Rightarrow> bridge \<Rightarrow> bridge" where
  "cleanup env s =
     (case cleanup_client_call (cleanup_sessions env s) of
        (None, s') \<Rightarrow> s'
      | (Some c, s') \<Rightarrow> cleanup_client_resume (client_close env c) s')"

definition process_exit :: "nat \<Rightarrow> bridge \<Rightarrow> bridge" where
  "process_exit code s = s\<lparr>exit_code := Some code\<rparr>"

text \<open>The handlers of SIGINT and SIGTERM are the same: \<open>cleanup\<close>, then \<open>process.exit(0)\<close>.\<close>

definition on_signal :: "close_env \<Rightarrow> bridge \<Rightarrow> bridge" where
  "on_signal env s = process_exit 0 (cleanup env s)"

subsection \<open>Startup\<close>

definition startup_warning :: "bridge \<Rightarrow> bridge" where
  "startup_warning s =
     console_error ''[Setup] Tools will be initialized on first request instead''
       (console_error ''[Setup] WARNING: Failed to pre-initialize Chrome connection:'' s)"

text \<open>
  The part of \<open>startHTTP\<close> that runs before the HTTP server is created: the eager
  connection and the \<open>listTools\<close> smoke test, any failure of which is only logged.
\<close>

definition startHTTP :: "rpc_env \<Rightarrow> bridge \<Rightarrow> bridge" where
  "startHTTP env s =
     (case initChromeConnection (connect_result env) s of
        (Inl e, s') \<Rightarrow> startup_warning s'
      | (Inr u, s') \<Rightarrow>
          (case chromeClient s' of
             None \<Rightarrow> startup_warning s'
           | Some c \<Rightarrow>
               (case listTools env c of
                  Inl e \<Rightarrow> startup_warning s'
                | Inr r \<Rightarrow> s')))"

text \<open>
  \<open>startStdio\<close> builds one server outside the registry and binds it to the standard
  streams of the process.
\<close>

definition startStdio :: "bridge \<Rightarrow> Server \<times> bridge" where
  "startStdio s = createServerForSession ''stdio'' s"

subsection \<open>The event loop\<close>

text \<open>
  JavaScript runs one callback at a time, and an \<open>async\<close> function gives control away only
  at an \<open>await\<close>. A state is reachable when the pieces of code between two awaits, run in
  any order and any number of times while the process has not exited, lead to it from the
  freshly constructed object. Every piece may run at any moment, also a continuation whose
  first half never ran: the relation allows more than the program does, which is on the safe
  side for an invariant. The assignment \<open>this.chromeClient = null\<close> of \<open>cleanup\<close> and the
  \<open>process.exit(0)\<close> that follows the return of \<open>cleanup\<close> are one step: between them
  stands only the resumption of the signal handler.
\<close>

inductive reachable :: "bridge \<Rightarrow> bool" where
  Constructed: "reachable new_ChromeProxyServer"
| Init_call: "reachable s \<Longrightarrow> exit_code s = None \<Longrightarrow>
     reachable (snd (initChromeConnection_begin s))"
| Connect_settles: "reachable s \<Longrightarrow> exit_code s = None \<Longrightarrow>
     reachable (snd (initChromeConnection_end out c s))"
| Startup: "reachable s \<Longrightarrow> exit_code s = None \<Longrightarrow> reachable (startHTTP renv s)"
| Stdio: "reachable s \<Longrightarrow> exit_code s = None \<Longrightarrow> reachable (snd (startStdio s))"
| Rpc: "reachable s \<Longrightarrow> exit_code s = None \<Longrightarrow> reachable (snd (dispatch srv rq renv s))"
| Http: "reachable s \<Longrightarrow> exit_code s = None \<Longrightarrow> reachable (snd (requestListener henv req s))"
| Emit: "reachable s \<Longrightarrow> exit_code s = None \<Longrightarrow> reachable (emit ev res s)"
| Timer: "reachable s \<Longrightarrow> exit_code s = None \<Longrightarrow> reachable (timer_fires cenv s)"
| Shutdown_sessions: "reachable s \<Longrightarrow> exit_code s = None \<Longrightarrow>
     reachable (cleanup_sessions cenv s)"
| Shutdown_client: "reachable s \<Longrightarrow> exit_code s = None \<Longrightarrow>
     reachable (snd (cleanup_client_call s))"
| Shutdown_exit: "reachable s \<Longrightarrow> exit_code s = None \<Longrightarrow>
     reachable (process_exit 0 (cleanup_client_resume out s))"
| Exit: "reachable s \<Longrightarrow> exit_code s = None \<Longrightarrow> reachable (process_exit code s)"

subsection \<open>Concrete environments and states\<close>

text \<open>
  A child that cannot be spawned and one that can. In both, the client object answers a
  request only once its handshake has completed, as the SDK's \<open>Client\<close> does.
\<close>

definition unreachable_child :: rpc_env where
  "unreachable_child =
     \<lparr>connect_result = Some (Error ''spawn npx ENOENT''),
      listTools = (\<lambda>c. if conn c = Ready then Inr (JObject []) else Inl (Error ''Not connected'')),
      callTool = (\<lambda>c n a. if conn c = Ready then Inr (JObject []) else Inl (Error ''Not connected''))\<rparr>"

definition reachable_child :: rpc_env where
  "reachable_child =
     \<lparr>connect_result = None,
      listTools = (\<lambda>c. if conn c = Ready then Inr (JObject []) else Inl (Error ''Not connected'')),
      callTool = (\<lambda>c n a. if conn c = Ready then Inr (JObject []) else Inl (Error ''Not connected''))\<rparr>"

text \<open>
  An HTTP side on which the SDK answers a request with the head of an event stream, one on
  which binding a new server to its transport is rejected, and one on which the transport
  throws after it has written the head.
\<close>

definition fixed_http :: http_env where
  "fixed_http =
     \<lparr>requestId = ''1a2b3c4d'', CHROME_URL_var = None, server_connect = None,
      handleRequest = (\<lambda>t r. (None, Written 200 [(''Content-Type'', ''text/event-stream'')] None False))\<rparr>"

definition connect_rejects :: http_env where
  "connect_rejects =
     \<lparr>requestId = ''1a2b3c4d'', CHROME_URL_var = None,
      server_connect = Some (Error ''connect failed''),
      handleRequest = (\<lambda>t r. (None, Untouched))\<rparr>"

definition stream_breaks :: http_env where
  "stream_breaks =
     \<lparr>requestId = ''1a2b3c4d'', CHROME_URL_var = None, server_connect = None,
      handleRequest =
        (\<lambda>t r. (Some (Error ''stream failed''),
                 Written 200 [(''Content-Type'', ''text/event-stream'')] None False))\<rparr>"

definition post_mcp :: request where
  "post_mcp = \<lparr>http_method = ''POST'', url = ''/mcp''\<rparr>"

definition get_mcp :: request where
  "get_mcp = \<lparr>http_method = ''GET'', url = ''/mcp''\<rparr>"

text \<open>The bridge after a successful start and one POST to \<open>/mcp\<close>: one client, one session.\<close>

definition serving :: bridge where
  "serving = snd (requestListener fixed_http post_mcp (startHTTP reachable_child new_ChromeProxyServer))"


definition transport_close_rejects :: close_env where
  "transport_close_rejects =
     \<lparr>transport_close = (\<lambda>t. Some (Error ''close failed'')),
      server_close = (\<lambda>s. None), client_close = (\<lambda>c. None)\<rparr>"

definition client_close_rejects :: close_env where
  "client_close_rejects =
     \<lparr>transport_close = (\<lambda>t. None),
      server_close = (\<lambda>s. None), client_close = (\<lambda>c. Some (Error ''close failed''))\<rparr>"




subsection \<open>Auxiliary definitions for the proofs\<close>

text \<open>
  The invariant behind the single spawn: the counter never passes one, and while the process
  runs an empty field means that nothing was spawned yet.
\<close>

definition one_child :: "bridge \<Rightarrow> bool" where
  "one_child s = (spawned s \<le> 1 \<and> (exit_code s = None \<and> chromeClient s = None \<longrightarrow> spawned s = 0))"

text \<open>A step that touches neither the child connection nor the exit status.\<close>

definition same_child :: "bridge \<Rightarrow> bridge \<Rightarrow> bool" where
  "same_child s s' =
     (chromeClient s' = chromeClient s \<and> spawned s' = spawned s \<and> exit_code s' = exit_code s)"

text \<open>
  What one pass through the \<open>try\<close>/\<open>catch\<close> around the two closes of a session adds to
  the log, and what the closing of the child connection adds.
\<close>

definition close_log :: "close_env \<Rightarrow> string \<Rightarrow> session \<Rightarrow> effect list" where
  "close_log env tag sess =
     TransportClose (transport_id (transport sess)) #
       (case transport_close env (transport sess) of
          Some e \<Rightarrow> [ConsoleError tag]
        | None \<Rightarrow>
            ServerClose (server_id (server sess)) #
              (case server_close env (server sess) of
                 Some e \<Rightarrow> [ConsoleError tag]
               | None \<Rightarrow> []))"

definition client_log :: "close_env \<Rightarrow> Client option \<Rightarrow> effect list" where
  "client_log env co =
     (case co of
        None \<Rightarrow> []
      | Some c \<Rightarrow>
          ClientClose (client_id c) #
            (case client_close env c of
               None \<Rightarrow> []
             | Some e \<Rightarrow> [ConsoleError ''[Shutdown] Error during cleanup:'']))"

text \<open>Every key of the registry is the shared identifier.\<close>

definition shared_only :: "bridge \<Rightarrow> bool" where
  "shared_only s = (set (map fst (activeSessions s)) \<subseteq> {sharedSessionId})"

section \<open>Frame lemmas\<close>

lemma initChromeConnection_begin_fields:
  "exit_code (snd (initChromeConnection_begin s)) = exit_code s"
  "activeSessions (snd (initChromeConnection_begin s)) = activeSessions s"
  by (simp_all add: initChromeConnection_begin_def Let_def split: option.splits)

lemma settle_fields:
  "spawned (settle c st s) = spawned s"
  "exit_code (settle c st s) = exit_code s"
  "activeSessions (settle c st s) = activeSessions s"
  "(chromeClient (settle c st s) = None) = (chromeClient s = None)"
  by (simp_all add: settle_def split: option.splits)

lemma console_error_fields:
  "chromeClient (console_error t s) = chromeClient s"
  "spawned (console_error t s) = spawned s"
  "exit_code (console_error t s) = exit_code s"
  "activeSessions (console_error t s) = activeSessions s"
  "timers (console_error t s) = timers s"
  "servers_made (console_error t s) = servers_made s"
  "transports_made (console_error t s) = transports_made s"
  "effects (console_error t s) = effects s @ [ConsoleError t]"
  by (simp_all add: console_error_def)

lemma sdk_call_fields:
  "chromeClient (sdk_call e s) = chromeClient s"
  "spawned (sdk_call e s) = spawned s"
  "exit_code (sdk_call e s) = exit_code s"
  "activeSessions (sdk_call e s) = activeSessions s"
  "timers (sdk_call e s) = timers s"
  "servers_made (sdk_call e s) = servers_made s"
  "transports_made (sdk_call e s) = transports_made s"
  "effects (sdk_call e s) = effects s @ [e]"
  by (simp_all add: sdk_call_def)

lemma one_child_begin:
  "one_child s \<Longrightarrow> exit_code s = None \<Longrightarrow> one_child (snd (initChromeConnection_begin s))"
  by (auto simp: one_child_def initChromeConnection_begin_def Let_def split: option.splits)

lemma one_child_end:
  "one_child s \<Longrightarrow> one_child (snd (initChromeConnection_end out c s))"
  by (auto simp: one_child_def initChromeConnection_end_def settle_fields console_error_fields
      split: option.splits)

lemma one_child_init:
  "one_child s \<Longrightarrow> exit_code s = None \<Longrightarrow> one_child (snd (initChromeConnection out s))"
  using one_child_begin [of s] one_child_end
  by (auto simp: initChromeConnection_def split: prod.splits option.splits)

lemma one_child_cong:
  "one_child s \<Longrightarrow> spawned s' = spawned s \<Longrightarrow> chromeClient s' = chromeClient s \<Longrightarrow>
   exit_code s' = exit_code s \<Longrightarrow> one_child s'"
  by (simp add: one_child_def)

lemma one_child_console_error: "one_child s \<Longrightarrow> one_child (console_error t s)"
  by (erule one_child_cong) (simp_all add: console_error_fields)

lemma one_child_listTools:
  "one_child s \<Longrightarrow> exit_code s = None \<Longrightarrow> one_child (snd (listToolsHandler env s))"
  using one_child_init [of s "connect_result env"]
  by (auto simp: listToolsHandler_def one_child_console_error split: prod.splits sum.splits option.splits)

lemma one_child_callTool:
  "one_child s \<Longrightarrow> exit_code s = None \<Longrightarrow> one_child (snd (callToolHandler env n a s))"
  using one_child_init [of s "connect_result env"]
  by (auto simp: callToolHandler_def one_child_console_error split: prod.splits sum.splits option.splits)

lemma one_child_dispatch:
  "one_child s \<Longrightarrow> exit_code s = None \<Longrightarrow> one_child (snd (dispatch srv rq env s))"
  by (auto simp: dispatch_def one_child_listTools one_child_callTool split: rpc_request.splits)

lemma one_child_startHTTP:
  "one_child s \<Longrightarrow> exit_code s = None \<Longrightarrow> one_child (startHTTP env s)"
  using one_child_init [of s "connect_result env"]
  by (auto simp: startHTTP_def startup_warning_def one_child_console_error
      split: prod.splits sum.splits option.splits)

lemma same_child_refl: "same_child s s"
  by (simp add: same_child_def)

lemma same_child_trans: "same_child s s1 \<Longrightarrow> same_child s1 s2 \<Longrightarrow> same_child s s2"
  by (simp add: same_child_def)

lemma same_child_console_error: "same_child s (console_error t s)"
  by (simp add: same_child_def console_error_fields)

lemma same_child_sdk_call: "same_child s (sdk_call e s)"
  by (simp add: same_child_def sdk_call_fields)

lemma same_child_getOrCreateSession: "same_child s (snd (getOrCreateSession out s))"
  by (simp add: same_child_def getOrCreateSession_def createServerForSession_def Let_def
      split: option.splits)

lemma same_child_mcp_try: "same_child s (snd (snd (mcp_try env req res s)))"
  using same_child_getOrCreateSession [of s "server_connect env"]
  by (auto simp: mcp_try_def Let_def same_child_def sdk_call_fields split: prod.splits sum.splits)

lemma same_child_handle_mcp: "same_child s (snd (handle_mcp env req res s))"
  using same_child_mcp_try [of s env req res]
  by (auto simp: handle_mcp_def same_child_def console_error_fields split: prod.splits option.splits)

lemma same_child_requestListener: "same_child s (snd (requestListener env req s))"
  by (simp add: requestListener_def Let_def same_child_handle_mcp same_child_refl)

lemma same_child_cleanupSession: "same_child s (cleanupSession s)"
  by (simp add: same_child_def cleanupSession_def)

lemma same_child_run_listener: "same_child s (run_listener l s)"
  by (cases l) (simp_all add: same_child_cleanupSession same_child_refl)

lemma same_child_fold_listeners: "same_child s (fold run_listener ls s)"
proof (induction ls arbitrary: s)
  case Nil
  show ?case by (simp add: same_child_refl)
next
  case (Cons l ls)
  show ?case
    using same_child_trans [OF same_child_run_listener Cons.IH] by simp
qed

lemma same_child_emit: "same_child s (emit ev res s)"
  by (simp add: emit_def same_child_fold_listeners)

lemma same_child_close_pair: "same_child s (close_pair env tag sess s)"
  by (simp add: close_pair_def Let_def same_child_def sdk_call_fields console_error_fields
      split: option.splits)

lemma same_child_removeSession: "same_child s (removeSession env sid s)"
proof (cases "map_of (activeSessions s) sid")
  case None
  then show ?thesis by (simp add: removeSession_def same_child_refl)
next
  case (Some sess)
  have "same_child (s\<lparr>activeSessions := AList.delete sid (activeSessions s)\<rparr>)
          (removeSession env sid s)"
    using Some by (simp add: removeSession_def same_child_close_pair)
  then show ?thesis by (simp add: same_child_def)
qed

lemma same_child_timer_fires: "same_child s (timer_fires env s)"
proof (cases "timers s")
  case Nil
  then show ?thesis by (simp add: timer_fires_def same_child_refl)
next
  case (Cons d ds)
  have "same_child (s\<lparr>timers := ds\<rparr>) (timer_fires env s)"
    using Cons by (simp add: timer_fires_def same_child_removeSession)
  then show ?thesis by (simp add: same_child_def)
qed

lemma same_child_close_sessions: "same_child s (close_sessions env ps s)"
proof (induction ps arbitrary: s)
  case Nil
  show ?case by (simp add: same_child_refl)
next
  case (Cons p ps)
  show ?case
    using same_child_trans [OF same_child_close_pair Cons.IH] by simp
qed

lemma same_child_cleanup_sessions: "same_child s (cleanup_sessions env s)"
  using same_child_close_sessions [of s env "activeSessions s"]
  by (simp add: cleanup_sessions_def same_child_def)

lemma same_child_cleanup_client_call: "same_child s (snd (cleanup_client_call s))"
  by (simp add: cleanup_client_call_def same_child_refl same_child_sdk_call split: option.splits)

lemma same_child_startStdio: "same_child s (snd (startStdio s))"
  by (simp add: startStdio_def createServerForSession_def same_child_def)

lemma one_child_same: "one_child s \<Longrightarrow> same_child s s' \<Longrightarrow> one_child s'"
  by (simp add: one_child_def same_child_def)

lemma reachable_one_child: "reachable s \<Longrightarrow> one_child s"
proof (induction rule: reachable.induct)
  case Constructed
  show ?case by (simp add: one_child_def new_ChromeProxyServer_def)
next
  case (Init_call s)
  then show ?case by (simp add: one_child_begin)
next
  case (Connect_settles s out c)
  then show ?case by (simp add: one_child_end)
next
  case (Startup s renv)
  then show ?case by (simp add: one_child_startHTTP)
next
  case (Stdio s)
  then show ?case using one_child_same [OF _ same_child_startStdio] by simp
next
  case (Rpc s srv rq renv)
  then show ?case by (simp add: one_child_dispatch)
next
  case (Http s henv req)
  then show ?case using one_child_same [OF _ same_child_requestListener] by simp
next
  case (Emit s ev res)
  then show ?case using one_child_same [OF _ same_child_emit] by simp
next
  case (Timer s cenv)
  then show ?case using one_child_same [OF _ same_child_timer_fires] by simp
next
  case (Shutdown_sessions s cenv)
  then show ?case using one_child_same [OF _ same_child_cleanup_sessions] by simp
next
  case (Shutdown_client s)
  then show ?case using one_child_same [OF _ same_child_cleanup_client_call] by simp
next
  case (Shutdown_exit s out)
  then show ?case
    by (cases out)
       (auto simp: one_child_def process_exit_def cleanup_client_resume_def console_error_fields)
next
  case (Exit s code)
  then show ?case by (simp add: one_child_def process_exit_def)
qed

section \<open>The child connection\<close>

lemma concurrent_calls_reachable:
  "reachable (snd (initChromeConnection_begin (snd (initChromeConnection_begin new_ChromeProxyServer))))"
proof -
  have r0: "reachable new_ChromeProxyServer" by (rule reachable.Constructed)
  have e0: "exit_code new_ChromeProxyServer = None" by (simp add: new_ChromeProxyServer_def)
  have r1: "reachable (snd (initChromeConnection_begin new_ChromeProxyServer))"
    by (rule reachable.Init_call [OF r0 e0])
  have e1: "exit_code (snd (initChromeConnection_begin new_ChromeProxyServer)) = None"
    by (simp add: initChromeConnection_begin_fields e0)
  show ?thesis by (rule reachable.Init_call [OF r1 e1])
qed

lemma begin_after_first:
  "chromeClient s \<noteq> None \<Longrightarrow> initChromeConnection_begin s = (None, s)"
  by (auto simp: initChromeConnection_begin_def split: option.splits)

text \<open>
  Any number of calls that all start before the first handshake settles: the first one
  spawns, every later one finds the field set and returns early.
\<close>

lemma concurrent_begin_spawns_once:
  "spawned (((snd \<circ> initChromeConnection_begin) ^^ Suc n) new_ChromeProxyServer) = 1
   \<and> chromeClient (((snd \<circ> initChromeConnection_begin) ^^ Suc n) new_ChromeProxyServer)
       = Some (Client 0 Connecting)"
proof (induction n)
  case 0
  show ?case by (simp add: initChromeConnection_begin_def new_ChromeProxyServer_def Let_def)
next
  case (Suc n)
  then show ?case by (simp add: begin_after_first)
qed

text \<open>
  Claim C2. In every state the bridge can reach, whatever the interleaving of startup, RPC
  handlers, HTTP requests, timers and shutdown, at most one \<open>Client\<close>/\<open>StdioClientTransport\<close>
  pair has been constructed and connected: at most one child is spawned over the lifetime
  of the process.
\<close>

theorem at_most_one_child_spawned: "reachable s \<Longrightarrow> spawned s \<le> 1"
  using reachable_one_child [of s] by (simp add: one_child_def)

theorem at_most_one_child_spawned_witness:
  "reachable (snd (initChromeConnection_begin (snd (initChromeConnection_begin new_ChromeProxyServer))))
   \<and> spawned (snd (initChromeConnection_begin (snd (initChromeConnection_begin new_ChromeProxyServer)))) \<le> 1"
  using at_most_one_child_spawned [OF concurrent_calls_reachable] concurrent_calls_reachable
  by simp

text \<open>
  Whatever the state, once a call has returned (with or without an error) the field is set,
  and every later call returns early and leaves the state as it is.
\<close>

lemma initChromeConnection_sets_field:
  "chromeClient (snd (initChromeConnection out s)) \<noteq> None"
  by (cases "chromeClient s"; cases out)
     (simp_all add: initChromeConnection_def initChromeConnection_begin_def
       initChromeConnection_end_def settle_def console_error_def Let_def)

lemma initChromeConnection_never_again:
  "initChromeConnection out' (snd (initChromeConnection out s))
     = (Inr (), snd (initChromeConnection out s))"
  using initChromeConnection_sets_field [of out s]
  by (simp add: initChromeConnection_def begin_after_first)

lemma started_failed:
  "startHTTP unreachable_child new_ChromeProxyServer =
   \<lparr>chromeClient = Some (Client 0 Failed), activeSessions = [], spawned = 1, servers_made = 0,
     transports_made = 0, timers = [],
     effects = [ConsoleError ''[Chrome] Failed to connect:'',
                ConsoleError ''[Setup] WARNING: Failed to pre-initialize Chrome connection:'',
                ConsoleError ''[Setup] Tools will be initialized on first request instead''],
     exit_code = None\<rparr>"
  by (simp add: startHTTP_def unreachable_child_def initChromeConnection_def
      initChromeConnection_begin_def initChromeConnection_end_def settle_def
      new_ChromeProxyServer_def console_error_def startup_warning_def Let_def)

text \<open>
  Claim C1. A failed attempt to connect propagates to the caller of the RPC call that
  triggered it, and a later call retries the connection. The first half holds. The second
  does not: \<open>initChromeConnection\<close> stores the new client before the handshake and never
  takes it back, so after a failed startup the field holds the failed client, a later
  \<open>initChromeConnection\<close> returns at once without spawning although the child could now be
  reached, and the next ListTools request is sent to the client that never connected.
\<close>

theorem no_retry_after_failed_connect:
  "fst (listToolsHandler unreachable_child new_ChromeProxyServer) = Inl (Error ''spawn npx ENOENT'')
   \<and> chromeClient (startHTTP unreachable_child new_ChromeProxyServer) = Some (Client 0 Failed)
   \<and> initChromeConnection None (startHTTP unreachable_child new_ChromeProxyServer)
       = (Inr (), startHTTP unreachable_child new_ChromeProxyServer)
   \<and> spawned (snd (listToolsHandler reachable_child (startHTTP unreachable_child new_ChromeProxyServer))) = 1
   \<and> fst (listToolsHandler reachable_child (startHTTP unreachable_child new_ChromeProxyServer))
       = Inl (Error ''Not connected'')"
  apply (simp add: started_failed)
  apply (simp add: listToolsHandler_def unreachable_child_def reachable_child_def initChromeConnection_def
      initChromeConnection_begin_def initChromeConnection_end_def settle_def
      new_ChromeProxyServer_def console_error_def Let_def)
  done

section \<open>The health endpoint\<close>

text \<open>
  Claim C3. \<open>/health\<close> answers 200 with a JSON body that reports the backend URL and two
  flags, and the connected flag is true exactly when a live, handshaken child connection
  exists. The shape holds; the equivalence does not: after a startup whose connection
  failed, the field still holds the failed client and the body reports
  \<open>chrome_connected: true\<close>.
\<close>

theorem health_reports_failed_child_connected:
  "chromeClient (startHTTP unreachable_child new_ChromeProxyServer) = Some (Client 0 Failed)
   \<and> statusCode (fst (requestListener fixed_http \<lparr>http_method = ''GET'', url = ''/health''\<rparr>
        (startHTTP unreachable_child new_ChromeProxyServer))) = 200
   \<and> payload (fst (requestListener fixed_http \<lparr>http_method = ''GET'', url = ''/health''\<rparr>
        (startHTTP unreachable_child new_ChromeProxyServer))) =
     Some (JsonBody (JObject
       [(''status'', JString ''ok''),
        (''chrome_url'', JString ''http://localhost:9222''),
        (''chrome_connected'', JBool True),
        (''tools_available'', JBool True)]))"
  by (simp add: started_failed requestListener_def health_body_def res_end_def res_writeHead_def
      fixed_http_def CHROME_URL_def Let_def)

text \<open>
  Claim C4. A request to \<open>/health\<close>, whatever its method, leaves the whole bridge state as
  it was: \<open>chromeClient\<close> and \<open>activeSessions\<close> are unchanged and nothing is spawned, so
  \<open>initChromeConnection\<close> is not run on that path.
\<close>

theorem health_changes_nothing:
  "snd (requestListener env \<lparr>http_method = m, url = ''/health''\<rparr> s) = s
   \<and> chromeClient (snd (requestListener env \<lparr>http_method = m, url = ''/health''\<rparr> s)) = chromeClient s
   \<and> activeSessions (snd (requestListener env \<lparr>http_method = m, url = ''/health''\<rparr> s)) = activeSessions s
   \<and> spawned (snd (requestListener env \<lparr>http_method = m, url = ''/health''\<rparr> s)) = spawned s"
  by (simp add: requestListener_def)

text \<open>
  Claim C10. In the body of every \<open>/health\<close> response the two flags are the same value:
  both are true exactly when the \<open>chromeClient\<close> field is not null at the time of the
  request.
\<close>

theorem health_flags_equal:
  "payload (fst (requestListener env \<lparr>http_method = m, url = ''/health''\<rparr> s)) =
     Some (JsonBody (JObject
       [(''status'', JString ''ok''),
        (''chrome_url'', JString (CHROME_URL (CHROME_URL_var env))),
        (''chrome_connected'', JBool (chromeClient s \<noteq> None)),
        (''tools_available'', JBool (chromeClient s \<noteq> None))]))
   \<and> statusCode (fst (requestListener env \<lparr>http_method = m, url = ''/health''\<rparr> s)) = 200"
  by (cases "chromeClient s")
     (simp_all add: requestListener_def health_body_def res_end_def res_writeHead_def Let_def)

section \<open>Removing a session\<close>

lemma close_pair_effects:
  "effects (close_pair env tag sess s) = effects s @ close_log env tag sess"
  by (simp add: close_pair_def close_log_def Let_def sdk_call_fields console_error_fields
      split: option.splits)

lemma close_pair_frame:
  "activeSessions (close_pair env tag sess s) = activeSessions s"
  "timers (close_pair env tag sess s) = timers s"
  "servers_made (close_pair env tag sess s) = servers_made s"
  "transports_made (close_pair env tag sess s) = transports_made s"
  by (simp_all add: close_pair_def Let_def sdk_call_fields console_error_fields
      split: option.splits)

lemma removeSession_absent:
  "map_of (activeSessions s) sid = None \<Longrightarrow> removeSession env sid s = s"
  by (simp add: removeSession_def)

lemma removeSession_present:
  "map_of (activeSessions s) sid = Some sess \<Longrightarrow>
   activeSessions (removeSession env sid s) = AList.delete sid (activeSessions s)
   \<and> effects (removeSession env sid s) = effects s @ close_log env ''Error cleaning up session:'' sess"
  by (simp add: removeSession_def close_pair_frame close_pair_effects)

lemma removeSession_registry:
  "map_of (activeSessions (removeSession env sid s)) = (map_of (activeSessions s))(sid := None)"
proof (cases "map_of (activeSessions s) sid")
  case None
  then show ?thesis by (simp add: removeSession_absent fun_upd_idem)
next
  case (Some sess)
  then show ?thesis by (simp add: removeSession_present AList.delete_conv')
qed

text \<open>
  Claim C7, as the code has it. Removing a session is idempotent and ordered. If no session
  is stored under the identifier, removal changes nothing and attempts no close. If one is,
  it is deleted from the registry, the close of its transport is the first call made, and
  the close of its server is the next call provided the close of the transport did not
  throw; a close that throws is logged and no further close is attempted. A second removal
  is a no-op.
\<close>

theorem removal_is_ordered_and_idempotent:
  "(case map_of (activeSessions s) sid of
      None \<Rightarrow> removeSession env sid s = s
    | Some sess \<Rightarrow>
        activeSessions (removeSession env sid s) = AList.delete sid (activeSessions s)
        \<and> map_of (activeSessions (removeSession env sid s)) sid = None
        \<and> effects (removeSession env sid s) =
            effects s @
              TransportClose (transport_id (transport sess)) #
                (case transport_close env (transport sess) of
                   Some e \<Rightarrow> [ConsoleError ''Error cleaning up session:'']
                 | None \<Rightarrow>
                     ServerClose (server_id (server sess)) #
                       (case server_close env (server sess) of
                          Some e \<Rightarrow> [ConsoleError ''Error cleaning up session:'']
                        | None \<Rightarrow> [])))
   \<and> removeSession env' sid (removeSession env sid s) = removeSession env sid s"
proof -
  have absent: "map_of (activeSessions (removeSession env sid s)) sid = None"
    by (simp add: removeSession_registry)
  have twice: "removeSession env' sid (removeSession env sid s) = removeSession env sid s"
    using absent by (rule removeSession_absent)
  show ?thesis
  proof (cases "map_of (activeSessions s) sid")
    case None
    then show ?thesis using twice by (simp add: removeSession_absent)
  next
    case (Some sess)
    then show ?thesis
      using twice absent removeSession_present [OF Some, of env]
      by (simp add: close_log_def)
  qed
qed

lemma started_ready:
  "startHTTP reachable_child new_ChromeProxyServer =
   \<lparr>chromeClient = Some (Client 0 Ready), activeSessions = [], spawned = 1, servers_made = 0,
     transports_made = 0, timers = [], effects = [], exit_code = None\<rparr>"
  by (simp add: startHTTP_def reachable_child_def initChromeConnection_def
      initChromeConnection_begin_def initChromeConnection_end_def settle_def
      new_ChromeProxyServer_def Let_def)

lemma serving_state:
  "serving =
   \<lparr>chromeClient = Some (Client 0 Ready),
     activeSessions =
       [(''http-shared'',
         \<lparr>server = Server 0 [ListToolsRequestSchema, CallToolRequestSchema],
            transport = Transport 0\<rparr>)],
     spawned = 1, servers_made = 1, transports_made = 1, timers = [],
     effects = [HandleRequest 0], exit_code = None\<rparr>"
  by (simp add: serving_def started_ready requestListener_def post_mcp_def handle_mcp_def
      mcp_try_def getOrCreateSession_def createServerForSession_def setupHandlers_def
      sharedSessionId_def fixed_http_def sdk_call_def Let_def)

text \<open>
  As written, the claim has both objects closed. With a session in the registry and a
  transport whose \<open>close\<close> rejects, the server's \<open>close\<close> is never called: both calls
  stand in one \<open>try\<close> block.
\<close>

theorem server_close_skipped_counterexample:
  "map_of (activeSessions serving) sharedSessionId =
     Some \<lparr>server = Server 0 [ListToolsRequestSchema, CallToolRequestSchema], transport = Transport 0\<rparr>
   \<and> effects (removeSession transport_close_rejects sharedSessionId serving) =
       [HandleRequest 0, TransportClose 0, ConsoleError ''Error cleaning up session:'']
   \<and> ServerClose 0 \<notin> set (effects (removeSession transport_close_rejects sharedSessionId serving))"
  by (simp add: serving_state removeSession_def sharedSessionId_def close_pair_def
      transport_close_rejects_def sdk_call_def console_error_def Let_def)

lemma close_sessions_effects:
  "effects (close_sessions env ps s) =
     effects s @ concat (map (\<lambda>p. close_log env ''[Shutdown] Error closing session'' (snd p)) ps)"
  by (induction ps arbitrary: s) (simp_all add: close_pair_effects)

lemma cleanup_sessions_effects:
  "effects (cleanup_sessions env s) =
     effects s @ concat (map (\<lambda>p. close_log env ''[Shutdown] Error closing session'' (snd p))
                          (activeSessions s))"
  by (simp add: cleanup_sessions_def close_sessions_effects)

lemma cleanup_sessions_registry: "activeSessions (cleanup_sessions env s) = []"
  by (simp add: cleanup_sessions_def)

lemma cleanup_sessions_child: "chromeClient (cleanup_sessions env s) = chromeClient s"
  using same_child_cleanup_sessions [of s env] by (simp add: same_child_def)

lemma on_signal_effects:
  "effects (on_signal env s) =
     effects s @ concat (map (\<lambda>p. close_log env ''[Shutdown] Error closing session'' (snd p))
                          (activeSessions s))
       @ client_log env (chromeClient s)"
  by (simp add: on_signal_def process_exit_def cleanup_def cleanup_client_call_def
      cleanup_client_resume_def cleanup_sessions_child cleanup_sessions_effects client_log_def
      sdk_call_fields console_error_fields
      split: option.splits)

lemma on_signal_fields:
  "activeSessions (on_signal env s) = []"
  "exit_code (on_signal env s) = Some 0"
  "chromeClient (on_signal env s) =
     (case chromeClient s of
        None \<Rightarrow> None
      | Some c \<Rightarrow> (case client_close env c of None \<Rightarrow> None | Some e \<Rightarrow> Some c))"
  by (simp_all add: on_signal_def process_exit_def cleanup_def cleanup_client_call_def
      cleanup_client_resume_def cleanup_sessions_child cleanup_sessions_registry
      sdk_call_fields console_error_fields
      split: option.splits)

lemma close_log_in_concat:
  assumes "p \<in> set ps"
  shows "\<exists>pre post. concat (map (\<lambda>p. close_log env tag (snd p)) ps)
            = pre @ close_log env tag (snd p) @ post"
proof -
  from assms obtain xs ys where "ps = xs @ p # ys" by (auto simp: in_set_conv_decomp)
  then have "concat (map (\<lambda>p. close_log env tag (snd p)) ps) =
        concat (map (\<lambda>p. close_log env tag (snd p)) xs) @ close_log env tag (snd p) @
        concat (map (\<lambda>p. close_log env tag (snd p)) ys)"
    by simp
  then show ?thesis by blast
qed

section \<open>Shutdown on a signal\<close>

text \<open>
  As written, the claim has the child connection cleared after every shutdown. When
  \<open>chromeClient.close()\<close> rejects, the assignment of \<open>null\<close> is skipped: the process
  exits with status 0 and the field still holds the client.
\<close>

theorem child_not_cleared_counterexample:
  "chromeClient serving = Some (Client 0 Ready)
   \<and> effects (on_signal client_close_rejects serving) =
       [HandleRequest 0, TransportClose 0, ServerClose 0, ClientClose 0,
        ConsoleError ''[Shutdown] Error during cleanup:'']
   \<and> exit_code (on_signal client_close_rejects serving) = Some 0
   \<and> chromeClient (on_signal client_close_rejects serving) = Some (Client 0 Ready)"
  by (simp add: on_signal_effects on_signal_fields serving_state close_log_def client_log_def
      client_close_rejects_def)

text \<open>
  Claim C9, as the code has it. On SIGINT or SIGTERM, for every session of the registry the
  close of its transport is attempted and then, unless that threw, the close of its server;
  a failure is logged and stops neither the remaining sessions nor the closing of the child
  connection (\<open>close_log\<close> is what one session adds to the log). Afterwards the registry is
  empty and the process exits with status 0. The close of the child connection, when there
  is one, is the last call made; the field is cleared when that close did not throw, and a
  throw is logged.
\<close>

theorem shutdown_is_best_effort:
  "activeSessions (on_signal env s) = []
   \<and> exit_code (on_signal env s) = Some 0
   \<and> (\<forall>p \<in> set (activeSessions s).
        \<exists>pre post. effects (on_signal env s) =
          effects s @ pre @ close_log env ''[Shutdown] Error closing session'' (snd p) @ post)
   \<and> (case chromeClient s of
        None \<Rightarrow> chromeClient (on_signal env s) = None
      | Some c \<Rightarrow>
          (\<exists>pre. effects (on_signal env s) =
             effects s @ pre @ ClientClose (client_id c) #
               (case client_close env c of
                  None \<Rightarrow> []
                | Some e \<Rightarrow> [ConsoleError ''[Shutdown] Error during cleanup:'']))
          \<and> chromeClient (on_signal env s) =
              (case client_close env c of None \<Rightarrow> None | Some e \<Rightarrow> Some c))"
proof -
  have sessions: "\<forall>p \<in> set (activeSessions s).
        \<exists>pre post. effects (on_signal env s) =
          effects s @ pre @ close_log env ''[Shutdown] Error closing session'' (snd p) @ post"
  proof
    fix p assume "p \<in> set (activeSessions s)"
    from close_log_in_concat [OF this, of env "''[Shutdown] Error closing session''"]
    obtain pre post where
      "concat (map (\<lambda>p. close_log env ''[Shutdown] Error closing session'' (snd p)) (activeSessions s))
         = pre @ close_log env ''[Shutdown] Error closing session'' (snd p) @ post"
      by blast
    then have "effects (on_signal env s) =
        effects s @ pre @ close_log env ''[Shutdown] Error closing session'' (snd p)
          @ (post @ client_log env (chromeClient s))"
      by (simp add: on_signal_effects)
    then show "\<exists>pre post. effects (on_signal env s) =
          effects s @ pre @ close_log env ''[Shutdown] Error closing session'' (snd p) @ post"
      by blast
  qed
  have child: "case chromeClient s of
        None \<Rightarrow> chromeClient (on_signal env s) = None
      | Some c \<Rightarrow>
          (\<exists>pre. effects (on_signal env s) =
             effects s @ pre @ ClientClose (client_id c) #
               (case client_close env c of
                  None \<Rightarrow> []
                | Some e \<Rightarrow> [ConsoleError ''[Shutdown] Error during cleanup:'']))
          \<and> chromeClient (on_signal env s) =
              (case client_close env c of None \<Rightarrow> None | Some e \<Rightarrow> Some c)"
  proof (cases "chromeClient s")
    case None
    then show ?thesis by (simp add: on_signal_fields)
  next
    case (Some c)
    have "effects (on_signal env s) =
        effects s @ concat (map (\<lambda>p. close_log env ''[Shutdown] Error closing session'' (snd p))
                          (activeSessions s)) @ ClientClose (client_id c) #
               (case client_close env c of
                  None \<Rightarrow> []
                | Some e \<Rightarrow> [ConsoleError ''[Shutdown] Error during cleanup:''])"
      using Some by (simp add: on_signal_effects client_log_def)
    then have "\<exists>pre. effects (on_signal env s) =
             effects s @ pre @ ClientClose (client_id c) #
               (case client_close env c of
                  None \<Rightarrow> []
                | Some e \<Rightarrow> [ConsoleError ''[Shutdown] Error during cleanup:''])"
      by blast
    then show ?thesis using Some by (simp add: on_signal_fields)
  qed
  show ?thesis using sessions child by (simp add: on_signal_fields)
qed

theorem shutdown_is_best_effort_witness:
  "(''http-shared'', \<lparr>server = Server 0 [ListToolsRequestSchema, CallToolRequestSchema],
                       transport = Transport 0\<rparr>) \<in> set (activeSessions serving)
   \<and> (\<exists>pre post. effects (on_signal transport_close_rejects serving) =
         effects serving @ pre @ [TransportClose 0, ConsoleError ''[Shutdown] Error closing session'']
           @ post)
   \<and> (\<exists>pre. effects (on_signal transport_close_rejects serving) =
         effects serving @ pre @ [ClientClose 0])
   \<and> chromeClient (on_signal transport_close_rejects serving) = None
   \<and> activeSessions (on_signal transport_close_rejects serving) = []
   \<and> exit_code (on_signal transport_close_rejects serving) = Some 0"
proof -
  let ?p = "(''http-shared'', \<lparr>server = Server 0 [ListToolsRequestSchema, CallToolRequestSchema],
                       transport = Transport 0\<rparr>)"
  have mem: "?p \<in> set (activeSessions serving)"
    by (simp add: serving_state)
  have cl: "close_log transport_close_rejects ''[Shutdown] Error closing session'' (snd ?p)
      = [TransportClose 0, ConsoleError ''[Shutdown] Error closing session'']"
    by (simp add: close_log_def transport_close_rejects_def)
  have ch: "chromeClient serving = Some (Client 0 Ready)"
    by (simp add: serving_state)
  have cc: "client_close transport_close_rejects (Client 0 Ready) = None"
    by (simp add: transport_close_rejects_def)
  note th = shutdown_is_best_effort [of transport_close_rejects serving]
  from th mem have "\<exists>pre post. effects (on_signal transport_close_rejects serving) =
          effects serving @ pre @
            close_log transport_close_rejects ''[Shutdown] Error closing session'' (snd ?p) @ post"
    by blast
  then have a: "\<exists>pre post. effects (on_signal transport_close_rejects serving) =
         effects serving @ pre @ [TransportClose 0, ConsoleError ''[Shutdown] Error closing session'']
           @ post"
    by (simp only: cl)
  from th have b: "(\<exists>pre. effects (on_signal transport_close_rejects serving) =
         effects serving @ pre @ [ClientClose 0])
     \<and> chromeClient (on_signal transport_close_rejects serving) = None"
    by (simp add: ch cc)
  from th have c: "activeSessions (on_signal transport_close_rejects serving) = []
      \<and> exit_code (on_signal transport_close_rejects serving) = Some 0"
    by simp
  show ?thesis using mem a b c by blast
qed

section \<open>The MCP endpoint\<close>

lemma mcp_url_not_health: "take 4 u = ''/mcp'' \<Longrightarrow> u \<noteq> ''/health''"
  by auto

lemma requestListener_mcp:
  "take 4 (url req) = ''/mcp'' \<Longrightarrow>
   requestListener env req s =
     handle_mcp env req (res_on ''error'' LogListener (res_on ''close'' LogListener ServerResponse)) s"
  using mcp_url_not_health [of "url req"] by (simp add: requestListener_def Let_def)

lemma getOrCreate_existing:
  "map_of (activeSessions s) sharedSessionId = Some sess \<Longrightarrow>
   getOrCreateSession out s = (Inr sess, s)"
  by (simp add: getOrCreateSession_def)

lemma getOrCreate_new:
  "map_of (activeSessions s) sharedSessionId = None \<Longrightarrow>
   getOrCreateSession None s =
     (Inr \<lparr>server = Server (servers_made s) [ListToolsRequestSchema, CallToolRequestSchema],
           transport = Transport (transports_made s)\<rparr>,
      s\<lparr>transports_made := Suc (transports_made s), servers_made := Suc (servers_made s),
        activeSessions :=
          AList.update sharedSessionId
            \<lparr>server = Server (servers_made s) [ListToolsRequestSchema, CallToolRequestSchema],
              transport = Transport (transports_made s)\<rparr> (activeSessions s)\<rparr>)"
  by (simp add: getOrCreateSession_def createServerForSession_def setupHandlers_def Let_def)

lemma getOrCreate_connect_fails:
  "map_of (activeSessions s) sharedSessionId = None \<Longrightarrow>
   getOrCreateSession (Some e) s =
     (Inl e, s\<lparr>transports_made := Suc (transports_made s), servers_made := Suc (servers_made s)\<rparr>)"
  by (simp add: getOrCreateSession_def createServerForSession_def setupHandlers_def Let_def)

lemma res_listeners:
  "listeners (res_setHeader k v res) = listeners res"
  "listeners (res_writeHead code hs res) = listeners res"
  "listeners (res_end d res) = listeners res"
  "listeners (apply_write w res) = listeners res"
  "listeners (res_on ev l res) = listeners res @ [(ev, l)]"
  by (simp_all add: res_setHeader_def res_writeHead_def res_end_def apply_write_def res_on_def
      split: sdk_write.splits)

lemma mcp_try_with_session:
  assumes "http_method req \<noteq> ''OPTIONS''"
    and "getOrCreateSession (server_connect env) s = (Inr sess, s1)"
  shows "fst (mcp_try env req res s) = fst (handleRequest env (transport sess) req)"
    and "snd (snd (mcp_try env req res s)) = sdk_call (HandleRequest (transport_id (transport sess))) s1"
    and "listeners (fst (snd (mcp_try env req res s))) =
           listeners res @ (if http_method req = ''GET''
                            then [(''close'', CleanupSession), (''finish'', CleanupSession)] else [])"
  using assms by (simp_all add: mcp_try_def Let_def res_listeners split: prod.splits)

lemma handle_mcp_after_try:
  "snd (handle_mcp env req res s) =
     (case fst (mcp_try env req res s) of
        None \<Rightarrow> snd (snd (mcp_try env req res s))
      | Some e \<Rightarrow> console_error ''ERROR:'' (snd (snd (mcp_try env req res s))))"
  "listeners (fst (handle_mcp env req res s)) = listeners (fst (snd (mcp_try env req res s)))"
  by (simp_all add: handle_mcp_def res_listeners split: prod.splits option.splits)


lemma handlers_use_shared_client:
  assumes "chromeClient st = Some c"
  shows "fst (listToolsHandler renv st) = listTools renv c"
    and "fst (callToolHandler renv name arguments st) = callTool renv c name arguments"
    and "spawned (snd (listToolsHandler renv st)) = spawned st"
    and "spawned (snd (callToolHandler renv name arguments st)) = spawned st"
  using assms
  by (simp_all add: listToolsHandler_def callToolHandler_def initChromeConnection_def
      initChromeConnection_begin_def console_error_fields split: sum.splits)

lemma dispatch_new_server:
  "dispatch (Server n [ListToolsRequestSchema, CallToolRequestSchema]) ListToolsRequest renv st
     = listToolsHandler renv st"
  "dispatch (Server n [ListToolsRequestSchema, CallToolRequestSchema]) (CallToolRequest name arguments) renv st
     = callToolHandler renv name arguments st"
  by (simp_all add: dispatch_def)

lemma connect_rejects_try:
  "mcp_try connect_rejects post_mcp
     (res_on ''error'' LogListener (res_on ''close'' LogListener ServerResponse)) new_ChromeProxyServer
   = (Some (Error ''connect failed''),
      \<lparr>headersSent = False, statusCode = 200,
        headers = [(''Access-Control-Allow-Origin'', ''*''),
                   (''Access-Control-Allow-Methods'', ''GET, POST, OPTIONS''),
                   (''Access-Control-Allow-Headers'', ''Content-Type'')],
        payload = None, writableEnded = False,
        listeners = [(''close'', LogListener), (''error'', LogListener)]\<rparr>,
      new_ChromeProxyServer\<lparr>transports_made := 1, servers_made := 1\<rparr>)"
  by (simp add: mcp_try_def connect_rejects_def post_mcp_def getOrCreateSession_def
      createServerForSession_def setupHandlers_def new_ChromeProxyServer_def res_on_def
      res_setHeader_def ServerResponse_def Let_def)

lemma stream_breaks_try:
  "mcp_try stream_breaks get_mcp
     (res_on ''error'' LogListener (res_on ''close'' LogListener ServerResponse)) serving
   = (Some (Error ''stream failed''),
      \<lparr>headersSent = True, statusCode = 200,
        headers = [(''Access-Control-Allow-Origin'', ''*''),
                   (''Access-Control-Allow-Methods'', ''GET, POST, OPTIONS''),
                   (''Access-Control-Allow-Headers'', ''Content-Type''),
                   (''Content-Type'', ''text/event-stream'')],
        payload = None, writableEnded = False,
        listeners = [(''close'', LogListener), (''error'', LogListener),
                     (''close'', CleanupSession), (''finish'', CleanupSession)]\<rparr>,
      serving\<lparr>effects := [HandleRequest 0, HandleRequest 0]\<rparr>)"
  by (simp add: mcp_try_def stream_breaks_def get_mcp_def getOrCreateSession_def serving_state
      sharedSessionId_def res_on_def res_setHeader_def res_writeHead_def apply_write_def
      ServerResponse_def sdk_call_def Let_def)

text \<open>
  As written, the claim has every request that finds no session store a new pair and use
  it. When \<open>server.connect(transport)\<close> rejects, one server and one transport have been
  constructed, but the registry is left empty and nothing is forwarded to a transport: the
  request is answered with 500.
\<close>

theorem unbound_pair_not_stored_counterexample:
  "take 4 (url post_mcp) = ''/mcp''
   \<and> http_method post_mcp = ''POST''
   \<and> map_of (activeSessions new_ChromeProxyServer) sharedSessionId = None
   \<and> servers_made (snd (requestListener connect_rejects post_mcp new_ChromeProxyServer)) = 1
   \<and> transports_made (snd (requestListener connect_rejects post_mcp new_ChromeProxyServer)) = 1
   \<and> activeSessions (snd (requestListener connect_rejects post_mcp new_ChromeProxyServer)) = []
   \<and> effects (snd (requestListener connect_rejects post_mcp new_ChromeProxyServer))
       = [ConsoleError ''ERROR:'']
   \<and> statusCode (fst (requestListener connect_rejects post_mcp new_ChromeProxyServer)) = 500"
proof -
  have u: "take 4 (url post_mcp) = ''/mcp''" by (simp add: post_mcp_def)
  have r: "snd (requestListener connect_rejects post_mcp new_ChromeProxyServer) =
             console_error ''ERROR:'' (new_ChromeProxyServer\<lparr>transports_made := 1, servers_made := 1\<rparr>)"
    and c: "statusCode (fst (requestListener connect_rejects post_mcp new_ChromeProxyServer)) = 500"
    unfolding requestListener_mcp [OF u] handle_mcp_def connect_rejects_try
    by (simp_all add: res_end_def res_writeHead_def)
  show ?thesis
    unfolding r c
    by (simp add: post_mcp_def new_ChromeProxyServer_def console_error_def)
qed

text \<open>
  Claim C5, as the code has it. A request on \<open>/mcp\<close> other than OPTIONS either finds the
  shared session, and then is forwarded to that session's transport while nothing is
  constructed and the registry stays as it is; or finds none, and then exactly one server
  and one transport are constructed, the server's two handlers sending their requests to
  the client held in the bridge's \<open>chromeClient\<close> field. When binding the server to the
  transport succeeds, the pair is stored under the shared identifier and the request is
  forwarded to the new transport; when it is rejected, the registry is left as it was and
  nothing is forwarded. In no case is a child connection constructed.
\<close>

theorem session_reused_or_created_once:
  assumes "take 4 (url req) = ''/mcp''" and "http_method req \<noteq> ''OPTIONS''"
  shows "(case map_of (activeSessions s) sharedSessionId of
           Some sess \<Rightarrow>
             activeSessions (snd (requestListener env req s)) = activeSessions s
             \<and> servers_made (snd (requestListener env req s)) = servers_made s
             \<and> transports_made (snd (requestListener env req s)) = transports_made s
             \<and> take (Suc (length (effects s))) (effects (snd (requestListener env req s)))
                 = effects s @ [HandleRequest (transport_id (transport sess))]
         | None \<Rightarrow>
             servers_made (snd (requestListener env req s)) = Suc (servers_made s)
             \<and> transports_made (snd (requestListener env req s)) = Suc (transports_made s)
             \<and> (\<forall>st c. chromeClient st = Some c \<longrightarrow>
                   fst (dispatch (setupHandlers (Server (servers_made s) []))
                          ListToolsRequest renv st) = listTools renv c
                   \<and> fst (dispatch (setupHandlers (Server (servers_made s) []))
                          (CallToolRequest name arguments) renv st)
                       = callTool renv c name arguments)
             \<and> (case server_connect env of
                  None \<Rightarrow>
                    map_of (activeSessions (snd (requestListener env req s))) sharedSessionId
                      = Some \<lparr>server = setupHandlers (Server (servers_made s) []),
                              transport = Transport (transports_made s)\<rparr>
                    \<and> take (Suc (length (effects s))) (effects (snd (requestListener env req s)))
                        = effects s @ [HandleRequest (transports_made s)]
                | Some e \<Rightarrow>
                    activeSessions (snd (requestListener env req s)) = activeSessions s
                    \<and> effects (snd (requestListener env req s))
                        = effects s @ [ConsoleError ''ERROR:'']))
         \<and> spawned (snd (requestListener env req s)) = spawned s
         \<and> chromeClient (snd (requestListener env req s)) = chromeClient s"
proof -
  let ?res0 = "res_on ''error'' LogListener (res_on ''close'' LogListener ServerResponse)"
  let ?s' = "snd (requestListener env req s)"
  have rl: "requestListener env req s = handle_mcp env req ?res0 s"
    using assms(1) by (rule requestListener_mcp)
  have child: "spawned ?s' = spawned s \<and> chromeClient ?s' = chromeClient s"
    using same_child_requestListener [of s env req] by (simp add: same_child_def)
  show ?thesis
  proof (cases "map_of (activeSessions s) sharedSessionId")
    case (Some sess)
    have goc: "getOrCreateSession (server_connect env) s = (Inr sess, s)"
      using Some by (rule getOrCreate_existing)
    have "?s' = (case fst (handleRequest env (transport sess) req) of
                   None \<Rightarrow> sdk_call (HandleRequest (transport_id (transport sess))) s
                 | Some e \<Rightarrow> console_error ''ERROR:''
                     (sdk_call (HandleRequest (transport_id (transport sess))) s))"
      by (simp add: rl handle_mcp_after_try mcp_try_with_session [OF assms(2) goc]
          cong: option.case_cong)
    then have "activeSessions ?s' = activeSessions s
        \<and> servers_made ?s' = servers_made s \<and> transports_made ?s' = transports_made s
        \<and> take (Suc (length (effects s))) (effects ?s')
             = effects s @ [HandleRequest (transport_id (transport sess))]"
      by (simp add: sdk_call_fields console_error_fields split: option.splits)
    then show ?thesis using Some child by simp
  next
    case None
    have deleg: "\<forall>st c. chromeClient st = Some c \<longrightarrow>
                   fst (dispatch (setupHandlers (Server (servers_made s) []))
                          ListToolsRequest renv st) = listTools renv c
                   \<and> fst (dispatch (setupHandlers (Server (servers_made s) []))
                          (CallToolRequest name arguments) renv st)
                       = callTool renv c name arguments"
      by (simp add: setupHandlers_def dispatch_new_server handlers_use_shared_client(1,2))
    show ?thesis
    proof (cases "server_connect env")
      case (Some e)
      have "mcp_try env req ?res0 s =
              (Some e,
               res_setHeader ''Access-Control-Allow-Headers'' ''Content-Type''
                   (res_setHeader ''Access-Control-Allow-Methods'' ''GET, POST, OPTIONS''
                     (res_setHeader ''Access-Control-Allow-Origin'' ''*'' ?res0)),
               s\<lparr>transports_made := Suc (transports_made s), servers_made := Suc (servers_made s)\<rparr>)"
        using assms(2) by (simp add: mcp_try_def Let_def Some getOrCreate_connect_fails [OF None])
      then have "?s' = console_error ''ERROR:''
          (s\<lparr>transports_made := Suc (transports_made s), servers_made := Suc (servers_made s)\<rparr>)"
        by (simp add: rl handle_mcp_def)
      then have "servers_made ?s' = Suc (servers_made s) \<and> transports_made ?s' = Suc (transports_made s)
          \<and> activeSessions ?s' = activeSessions s
          \<and> effects ?s' = effects s @ [ConsoleError ''ERROR:'']"
        by (simp add: console_error_fields)
      then show ?thesis using None Some child deleg by simp
    next
      case cn: None
      let ?sess = "\<lparr>server = Server (servers_made s) [ListToolsRequestSchema, CallToolRequestSchema],
                     transport = Transport (transports_made s)\<rparr>"
      let ?s1 = "s\<lparr>transports_made := Suc (transports_made s), servers_made := Suc (servers_made s),
                   activeSessions := AList.update sharedSessionId ?sess (activeSessions s)\<rparr>"
      have goc: "getOrCreateSession (server_connect env) s = (Inr ?sess, ?s1)"
        using getOrCreate_new [OF None] cn by simp
      have "?s' = (case fst (handleRequest env (transport ?sess) req) of
                   None \<Rightarrow> sdk_call (HandleRequest (transport_id (transport ?sess))) ?s1
                 | Some e \<Rightarrow> console_error ''ERROR:''
                     (sdk_call (HandleRequest (transport_id (transport ?sess))) ?s1))"
        by (simp add: rl handle_mcp_after_try mcp_try_with_session [OF assms(2) goc]
            cong: option.case_cong)
      then have "servers_made ?s' = Suc (servers_made s)
          \<and> transports_made ?s' = Suc (transports_made s)
          \<and> map_of (activeSessions ?s') sharedSessionId = Some ?sess
          \<and> take (Suc (length (effects s))) (effects ?s') = effects s @ [HandleRequest (transports_made s)]"
        by (simp add: sdk_call_fields console_error_fields update_conv' split: option.splits)
      then show ?thesis
        using None cn child deleg by (simp add: setupHandlers_def)
    qed
  qed
qed

theorem session_reused_or_created_once_witness:
  "map_of (activeSessions (startHTTP reachable_child new_ChromeProxyServer)) sharedSessionId = None
   \<and> map_of (activeSessions (snd (requestListener fixed_http post_mcp
              (startHTTP reachable_child new_ChromeProxyServer)))) sharedSessionId
       = Some \<lparr>server = Server 0 [ListToolsRequestSchema, CallToolRequestSchema],
               transport = Transport 0\<rparr>
   \<and> servers_made (snd (requestListener fixed_http post_mcp
              (startHTTP reachable_child new_ChromeProxyServer))) = 1
   \<and> spawned (snd (requestListener fixed_http post_mcp
              (startHTTP reachable_child new_ChromeProxyServer))) = 1
   \<and> activeSessions (snd (requestListener connect_rejects post_mcp
              (startHTTP reachable_child new_ChromeProxyServer))) = []
   \<and> map_of (activeSessions serving) sharedSessionId
       = Some \<lparr>server = Server 0 [ListToolsRequestSchema, CallToolRequestSchema],
               transport = Transport 0\<rparr>
   \<and> activeSessions (snd (requestListener fixed_http post_mcp serving)) = activeSessions serving
   \<and> servers_made (snd (requestListener fixed_http post_mcp serving)) = 1
   \<and> transports_made (snd (requestListener fixed_http post_mcp serving)) = 1
   \<and> spawned (snd (requestListener fixed_http post_mcp serving)) = 1"
proof -
  have u: "take 4 (url post_mcp) = ''/mcp''" and m: "http_method post_mcp \<noteq> ''OPTIONS''"
    by (simp_all add: post_mcp_def)
  have c: "server_connect fixed_http = None"
    "server_connect connect_rejects = Some (Error ''connect failed'')"
    by (simp_all add: fixed_http_def connect_rejects_def)
  have a0: "map_of (activeSessions (startHTTP reachable_child new_ChromeProxyServer)) sharedSessionId = None"
    by (simp add: started_ready)
  have a1: "map_of (activeSessions serving) sharedSessionId
       = Some \<lparr>server = Server 0 [ListToolsRequestSchema, CallToolRequestSchema],
               transport = Transport 0\<rparr>"
    by (simp add: serving_state sharedSessionId_def)
  have f: "servers_made (startHTTP reachable_child new_ChromeProxyServer) = 0"
    "transports_made (startHTTP reachable_child new_ChromeProxyServer) = 0"
    "spawned (startHTTP reachable_child new_ChromeProxyServer) = 1"
    "activeSessions (startHTTP reachable_child new_ChromeProxyServer) = []"
    "servers_made serving = 1" "transports_made serving = 1" "spawned serving = 1"
    by (simp_all add: started_ready serving_state)
  show ?thesis
    using session_reused_or_created_once [OF u m, where s = "startHTTP reachable_child new_ChromeProxyServer" and env = fixed_http]
      session_reused_or_created_once [OF u m, where s = "startHTTP reachable_child new_ChromeProxyServer" and env = connect_rejects]
      session_reused_or_created_once [OF u m, where s = serving and env = fixed_http]
    by (simp add: a0 a1 c f setupHandlers_def)
qed

text \<open>
  Claim C8. When the \<open>try\<close> block of the \<open>/mcp\<close> branch throws and no headers have been
  sent, the response is 500 with the JSON body \<open>{error, message, requestId}\<close>; when
  headers have been sent already, the response is left as the transport left it.
\<close>

theorem mcp_failure_answers_500:
  assumes "take 4 (url req) = ''/mcp''"
    and "mcp_try env req (res_on ''error'' LogListener (res_on ''close'' LogListener ServerResponse)) s
           = (Some e, res', s')"
  shows "(\<not> headersSent res' \<longrightarrow>
            statusCode (fst (requestListener env req s)) = 500
            \<and> payload (fst (requestListener env req s)) =
                Some (JsonBody (JObject
                  [(''error'', JString ''Internal server error''),
                   (''message'', JString (message e)),
                   (''requestId'', JString (requestId env))]))
            \<and> map_of (headers (fst (requestListener env req s))) ''Content-Type''
                = Some ''application/json''
            \<and> headersSent (fst (requestListener env req s))
            \<and> writableEnded (fst (requestListener env req s)))
         \<and> (headersSent res' \<longrightarrow> fst (requestListener env req s) = res')"
  using assms(2)
  by (simp add: requestListener_mcp [OF assms(1)] handle_mcp_def res_end_def res_writeHead_def
      update_conv')

theorem mcp_failure_answers_500_witness:
  "statusCode (fst (requestListener connect_rejects post_mcp new_ChromeProxyServer)) = 500
   \<and> payload (fst (requestListener connect_rejects post_mcp new_ChromeProxyServer)) =
       Some (JsonBody (JObject
         [(''error'', JString ''Internal server error''),
          (''message'', JString ''connect failed''),
          (''requestId'', JString ''1a2b3c4d'')]))
   \<and> statusCode (fst (requestListener stream_breaks get_mcp serving)) = 200
   \<and> payload (fst (requestListener stream_breaks get_mcp serving)) = None"
proof -
  have u: "take 4 (url post_mcp) = ''/mcp''" "take 4 (url get_mcp) = ''/mcp''"
    by (simp_all add: post_mcp_def get_mcp_def)
  have r: "requestId connect_rejects = ''1a2b3c4d''" by (simp add: connect_rejects_def)
  show ?thesis
    using mcp_failure_answers_500 [OF u(1) connect_rejects_try]
      mcp_failure_answers_500 [OF u(2) stream_breaks_try]
    by (simp add: r)
qed

section \<open>The end of a stream\<close>









lemma shared_only_same:
  "shared_only s \<Longrightarrow> activeSessions s' = activeSessions s \<Longrightarrow> shared_only s'"
  by (simp add: shared_only_def)

lemma registry_initChromeConnection_end:
  "activeSessions (snd (initChromeConnection_end out c s)) = activeSessions s"
  by (simp add: initChromeConnection_end_def settle_fields console_error_fields split: option.splits)

lemma registry_initChromeConnection:
  "activeSessions (snd (initChromeConnection out s)) = activeSessions s"
  by (simp add: initChromeConnection_def initChromeConnection_begin_fields
      registry_initChromeConnection_end split: prod.splits option.splits)
     (metis initChromeConnection_begin_fields(2) snd_conv)

lemma registry_handlers:
  "activeSessions (snd (listToolsHandler env s)) = activeSessions s"
  "activeSessions (snd (callToolHandler env n a s)) = activeSessions s"
  using registry_initChromeConnection [of "connect_result env" s]
  by (auto simp: listToolsHandler_def callToolHandler_def console_error_fields
      split: prod.splits sum.splits option.splits)

lemma registry_dispatch:
  "activeSessions (snd (dispatch srv rq env s)) = activeSessions s"
  by (simp add: dispatch_def registry_handlers split: rpc_request.splits)

lemma registry_startHTTP:
  "activeSessions (startHTTP env s) = activeSessions s"
  using registry_initChromeConnection [of "connect_result env" s]
  by (auto simp: startHTTP_def startup_warning_def console_error_fields
      split: prod.splits sum.splits option.splits)

lemma registry_emit: "activeSessions (emit ev res s) = activeSessions s"
proof -
  have "activeSessions (fold run_listener ls s) = activeSessions s" for ls
  proof (induction ls arbitrary: s)
    case Nil
    show ?case by simp
  next
    case (Cons l ls)
    show ?case by (cases l) (simp_all add: Cons.IH cleanupSession_def)
  qed
  then show ?thesis by (simp add: emit_def)
qed

lemma shared_only_getOrCreateSession:
  "shared_only s \<Longrightarrow> shared_only (snd (getOrCreateSession out s))"
  by (auto simp: shared_only_def getOrCreateSession_def createServerForSession_def Let_def
      AList.dom_update split: option.splits)

lemma registry_mcp_try:
  "activeSessions (snd (snd (mcp_try env req res s))) =
     (if http_method req = ''OPTIONS'' then activeSessions s
      else activeSessions (snd (getOrCreateSession (server_connect env) s)))"
  by (simp add: mcp_try_def Let_def sdk_call_fields split: prod.splits sum.splits)

lemma registry_handle_mcp:
  "activeSessions (snd (handle_mcp env req res s)) =
     activeSessions (snd (snd (mcp_try env req res s)))"
  by (simp add: handle_mcp_after_try(1) console_error_fields split: option.splits)

lemma shared_only_requestListener:
  assumes "shared_only s"
  shows "shared_only (snd (requestListener env req s))"
proof -
  have g: "shared_only (snd (getOrCreateSession (server_connect env) s))"
    using assms by (rule shared_only_getOrCreateSession)
  have "shared_only (snd (handle_mcp env req res s))" for res
    using assms g by (simp add: shared_only_def registry_handle_mcp registry_mcp_try)
  then show ?thesis using assms by (simp add: requestListener_def Let_def)
qed

lemma shared_only_timer_fires: "shared_only s \<Longrightarrow> shared_only (timer_fires env s)"
proof (cases "timers s")
  case Nil
  assume "shared_only s"
  with Nil show ?thesis by (simp add: timer_fires_def)
next
  case (Cons d ds)
  assume a: "shared_only s"
  have "map_of (activeSessions (timer_fires env s)) = (map_of (activeSessions s))(sharedSessionId := None)"
    using Cons by (simp add: timer_fires_def removeSession_registry)
  have "fst ` set (activeSessions (timer_fires env s)) \<subseteq> fst ` set (activeSessions s)"
    using Cons AList.dom_delete_subset [of sharedSessionId "activeSessions s"]
    by (simp add: timer_fires_def removeSession_def close_pair_frame split: option.splits)
  with a show ?thesis by (auto simp: shared_only_def)
qed

text \<open>
  The registry never holds an entry under another identifier than the shared one, so in
  the states the bridge reaches there is no other entry a removal could touch.
\<close>

lemma reachable_shared_only: "reachable s \<Longrightarrow> shared_only s"
proof (induction rule: reachable.induct)
  case Constructed
  show ?case by (simp add: shared_only_def new_ChromeProxyServer_def)
next
  case (Init_call s)
  then show ?case by (simp add: shared_only_def initChromeConnection_begin_fields)
next
  case (Connect_settles s out c)
  then show ?case by (simp add: shared_only_def registry_initChromeConnection_end)
next
  case (Startup s renv)
  then show ?case by (simp add: shared_only_def registry_startHTTP)
next
  case (Stdio s)
  then show ?case by (simp add: shared_only_def startStdio_def createServerForSession_def)
next
  case (Rpc s srv rq renv)
  then show ?case by (simp add: shared_only_def registry_dispatch)
next
  case (Http s henv req)
  then show ?case by (simp add: shared_only_requestListener)
next
  case (Emit s ev res)
  then show ?case by (simp add: shared_only_def registry_emit)
next
  case (Timer s cenv)
  then show ?case by (simp add: shared_only_timer_fires)
next
  case (Shutdown_sessions s cenv)
  show ?case by (simp add: shared_only_def cleanup_sessions_def)
next
  case (Shutdown_client s)
  then show ?case
    by (simp add: shared_only_def cleanup_client_call_def sdk_call_fields split: option.splits)
next
  case (Shutdown_exit s out)
  then show ?case
    by (simp add: shared_only_def process_exit_def cleanup_client_resume_def console_error_fields
        split: option.splits)
next
  case (Exit s code)
  then show ?case by (simp add: shared_only_def process_exit_def)
qed






end
